theory Spec2Isabelle
  imports Complex_Main "HOL-Library.Multiset"
begin

section \<open>Tri-state selection (src/utils/computeSelectionTriState.ts)\<close>

text \<open>
  The string-literal union \<^verbatim>\<open>'indeterminate' | 'all' | 'none'\<close> of the source. The
  constructors carry a suffix because \<open>All\<close> and \<open>None\<close> are constants of HOL.
\<close>

datatype TriState = Indeterminate_tri | All_tri | None_tri

text \<open>
  The body of the \<^verbatim>\<open>for (const item of allItems)\<close> loop of
  \<^verbatim>\<open>computeSelectionTriStateByCompare\<close>, with the two local flags passed along.
  \<^verbatim>\<open>selectedItems.some(selected => compareFn(item, selected))\<close> is \<open>list_ex\<close>;
  the early \<^verbatim>\<open>return stateMapper('indeterminate')\<close> ends the recursion, and the
  statement after the loop is the equation for the empty list.
\<close>

fun compareLoop ::
  "('t \<Rightarrow> 't \<Rightarrow> bool) \<Rightarrow> (TriState \<Rightarrow> 'r) \<Rightarrow> 't list \<Rightarrow> 't list \<Rightarrow> bool \<Rightarrow> bool \<Rightarrow> 'r" where
  "compareLoop compareFn stateMapper selectedItems [] hasSelected hasUnselected =
     (if hasSelected then stateMapper All_tri else stateMapper None_tri)"
| "compareLoop compareFn stateMapper selectedItems (item # rest) hasSelected hasUnselected =
     (let isSelected = list_ex (\<lambda>selected. compareFn item selected) selectedItems;
          hasSelected' = (if isSelected then True else hasSelected);
          hasUnselected' = (if isSelected then hasUnselected else True)
      in if hasSelected' \<and> hasUnselected' then stateMapper Indeterminate_tri
         else compareLoop compareFn stateMapper selectedItems rest hasSelected' hasUnselected')"

definition computeSelectionTriStateByCompare ::
  "'t list \<Rightarrow> 't list \<Rightarrow> ('t \<Rightarrow> 't \<Rightarrow> bool) \<Rightarrow> (TriState \<Rightarrow> 'r) \<Rightarrow> 'r" where
  "computeSelectionTriStateByCompare allItems selectedItems compareFn stateMapper =
     compareLoop compareFn stateMapper selectedItems allItems False False"

text \<open>
  The default \<^verbatim>\<open>stateMapper\<close> of both entry points, \<^verbatim>\<open>(state) => state as R\<close>.
\<close>

definition defaultStateMapper :: "TriState \<Rightarrow> TriState" where
  "defaultStateMapper state = state"

subsection \<open>Keys\<close>

text \<open>
  A key extractor returns \<^verbatim>\<open>string | number\<close>. A number is NaN, an infinity or a
  finite value; \<open>+0\<close> and \<open>-0\<close> are one value here, which both equalities below
  agree with. The read of a property that the item does not have gives
  \<^verbatim>\<open>undefined\<close>, which the cast of the source lets through.
\<close>

datatype number = NaN | PosInfinity | NegInfinity | Finite real

datatype key = KeyString string | KeyNumber number | KeyUndefined

text \<open>
  \<^verbatim>\<open>a === b\<close> on keys: NaN is not equal to anything, itself included.
\<close>

definition strictEquals :: "key \<Rightarrow> key \<Rightarrow> bool" where
  "strictEquals a b = (a = b \<and> a \<noteq> KeyNumber NaN)"


text \<open>
  The third parameter of \<^verbatim>\<open>computeSelectionTriStateByKey\<close> is an extractor function
  or a property name of the item. The source calls the extractor in two ways: the loop
  calls \<^verbatim>\<open>extractor(item)\<close>, and \<^verbatim>\<open>selectedItems.map(extractor)\<close> calls it as
  \<^verbatim>\<open>map\<close> calls any callback, with the item, its index and the array. A function of
  the language may read these further arguments (a second parameter with a default), so
  an extractor takes the item and, when they are passed, the index and the array.
  \<open>readProperty item name\<close> stands for the property read \<^verbatim>\<open>item[keyOrExtractor]\<close> of
  the item type, which the caller's type fixes; the arrow function the source wraps
  around it has the item as its only parameter.
\<close>

datatype ('t, 'k) keyOrExtractor =
    Extractor "'t \<Rightarrow> (nat \<times> 't list) option \<Rightarrow> key"
  | PropertyName 'k

definition resolveExtractor ::
  "('t \<Rightarrow> 'k \<Rightarrow> key) \<Rightarrow> ('t, 'k) keyOrExtractor \<Rightarrow> 't \<Rightarrow> (nat \<times> 't list) option \<Rightarrow> key" where
  "resolveExtractor readProperty keyOrExtractor =
     (case keyOrExtractor of
        Extractor f \<Rightarrow> f
      | PropertyName name \<Rightarrow> (\<lambda>item further. readProperty item name))"

text \<open>
  \<^verbatim>\<open>array.map(callback)\<close>: the callback gets each element with its index and the
  array.
\<close>

definition arrayMap :: "('t \<Rightarrow> (nat \<times> 't list) option \<Rightarrow> 'b) \<Rightarrow> 't list \<Rightarrow> 'b list" where
  "arrayMap callback array =
     map (\<lambda>(index, element). callback element (Some (index, array))) (enumerate 0 array)"

text \<open>
  The loop of \<^verbatim>\<open>computeSelectionTriStateByKey\<close>; \<open>selectedKeys\<close> is the
  \<^verbatim>\<open>Set\<close> built before it, and \<^verbatim>\<open>selectedKeys.has(key)\<close> is membership.
\<close>

fun keyLoop ::
  "('t \<Rightarrow> (nat \<times> 't list) option \<Rightarrow> key) \<Rightarrow> (TriState \<Rightarrow> 'r) \<Rightarrow> key set \<Rightarrow> 't list \<Rightarrow> bool \<Rightarrow> bool \<Rightarrow> 'r" where
  "keyLoop extractor stateMapper selectedKeys [] hasSelected hasUnselected =
     (if hasSelected then stateMapper All_tri else stateMapper None_tri)"
| "keyLoop extractor stateMapper selectedKeys (item # rest) hasSelected hasUnselected =
     (let key = extractor item None;
          hasSelected' = (if key \<in> selectedKeys then True else hasSelected);
          hasUnselected' = (if key \<in> selectedKeys then hasUnselected else True)
      in if hasSelected' \<and> hasUnselected' then stateMapper Indeterminate_tri
         else keyLoop extractor stateMapper selectedKeys rest hasSelected' hasUnselected')"

definition computeSelectionTriStateByKey ::
  "('t \<Rightarrow> 'k \<Rightarrow> key) \<Rightarrow> 't list \<Rightarrow> 't list \<Rightarrow> ('t, 'k) keyOrExtractor \<Rightarrow> (TriState \<Rightarrow> 'r) \<Rightarrow> 'r" where
  "computeSelectionTriStateByKey readProperty allItems selectedItems keyOrExtractor stateMapper =
     (let extractor = resolveExtractor readProperty keyOrExtractor;
          selectedKeys = set (arrayMap extractor selectedItems)
      in keyLoop extractor stateMapper selectedKeys allItems False False)"

text \<open>
  An item of \<open>allItems\<close> is selected under the comparator when some element of
  \<open>selectedItems\<close> compares equal to it.
\<close>

definition isSelectedBy :: "('t \<Rightarrow> 't \<Rightarrow> bool) \<Rightarrow> 't list \<Rightarrow> 't \<Rightarrow> bool" where
  "isSelectedBy compareFn selectedItems item = list_ex (\<lambda>selected. compareFn item selected) selectedItems"

section \<open>The mockMore pipe and its placeholder (MockMorePipe, createMock)\<close>

subsection \<open>Values\<close>

text \<open>
  A property key is a string (an index such as \<^verbatim>\<open>proxy[0]\<close> is the string \<open>0\<close>) or a
  symbol; \<^verbatim>\<open>Symbol.toPrimitive\<close> is the one symbol the source names.
\<close>

datatype propertyKey = StringKey string | SymbolToPrimitive | OtherSymbol string

text \<open>
  The values the pipe handles: \<^verbatim>\<open>undefined\<close>, numbers, strings, an arrow function
  \<^verbatim>\<open>() => v\<close> returning a fixed value, the proxy that \<^verbatim>\<open>createMock(displayToken)\<close>
  builds, and plain objects. A plain object has its own properties, a map from names to
  values, and a prototype: \<open>None\<close> is the \<^verbatim>\<open>Object.prototype\<close> an object literal
  starts with, \<open>Some p\<close> the value \<open>p\<close> that an assignment to \<^verbatim>\<open>__proto__\<close> has put
  in its place.
\<close>

datatype jsvalue =
    Undefined
  | Num number
  | Str string
  | ConstFunction jsvalue
  | MockProxy string
  | Object "jsvalue option" "string \<Rightarrow> jsvalue option"

datatype jsError = TypeError | RangeError

subsection \<open>createMock\<close>

text \<open>
  \<^verbatim>\<open>createMock(displayToken)\<close> returns \<^verbatim>\<open>new Proxy(() => {}, handler)\<close>. The three
  traps of the handler follow; \<open>MockProxy displayToken\<close> is the variable
  \<^verbatim>\<open>proxy\<close> they close over.
\<close>

definition createMock :: "string \<Rightarrow> jsvalue" where
  "createMock displayToken = MockProxy displayToken"

definition handler_get :: "string \<Rightarrow> propertyKey \<Rightarrow> jsvalue" where
  "handler_get displayToken prop =
     (if prop = SymbolToPrimitive then ConstFunction (Str displayToken)
      else MockProxy displayToken)"

definition handler_apply :: "string \<Rightarrow> jsvalue list \<Rightarrow> jsvalue" where
  "handler_apply displayToken args = MockProxy displayToken"

definition handler_ownKeys :: "string \<Rightarrow> propertyKey list" where
  "handler_ownKeys displayToken = []"

text \<open>
  How the language runs a property read, by the kind of value it is made on. A read on
  the proxy calls the \<^verbatim>\<open>get\<close> trap; on \<^verbatim>\<open>undefined\<close> it throws a TypeError; on an
  object it yields the own property of that name, and without one it goes on to the
  prototype that was put in place. Every other read is answered by the built-in objects
  of the language (prototypes, wrappers), which are not part of the repository:
  \<open>builtin\<close> stands for them and never throws.
\<close>

fun ownProperty :: "(string \<Rightarrow> jsvalue option) \<Rightarrow> propertyKey \<Rightarrow> jsvalue option" where
  "ownProperty own (StringKey name) = own name"
| "ownProperty own prop = None"

fun getValue :: "(jsvalue \<Rightarrow> propertyKey \<Rightarrow> jsvalue) \<Rightarrow> jsvalue \<Rightarrow> propertyKey \<Rightarrow> jsError + jsvalue" where
  "getValue builtin (MockProxy displayToken) prop = Inr (handler_get displayToken prop)"
| "getValue builtin Undefined prop = Inl TypeError"
| "getValue builtin (Object (Some p) own) prop =
     (case ownProperty own prop of
        Some v \<Rightarrow> Inr v
      | None \<Rightarrow> getValue builtin p prop)"
| "getValue builtin (Object None own) prop =
     (case ownProperty own prop of
        Some v \<Rightarrow> Inr v
      | None \<Rightarrow> Inr (builtin (Object None own) prop))"
| "getValue builtin v prop = Inr (builtin v prop)"

text \<open>
  A call of the proxy runs the \<^verbatim>\<open>apply\<close> trap, a call of \<^verbatim>\<open>() => v\<close> returns
  \<open>v\<close>, and a call of anything else throws a TypeError (not a function).
\<close>

fun callValue :: "jsvalue \<Rightarrow> jsvalue list \<Rightarrow> jsError + jsvalue" where
  "callValue (MockProxy displayToken) args = Inr (handler_apply displayToken args)"
| "callValue (ConstFunction v) args = Inr v"
| "callValue v args = Inl TypeError"

text \<open>
  \<^verbatim>\<open>Object.keys(proxy)\<close> and \<^verbatim>\<open>for...in\<close> ask the \<^verbatim>\<open>ownKeys\<close> trap. The target
  \<^verbatim>\<open>() => {}\<close> is extensible and has no non-configurable own property, so the
  language accepts the empty list of the trap.
\<close>

definition ownKeysOfMock :: "string \<Rightarrow> propertyKey list" where
  "ownKeysOfMock displayToken = handler_ownKeys displayToken"

fun isPrimitive :: "jsvalue \<Rightarrow> bool" where
  "isPrimitive Undefined = True"
| "isPrimitive (Num n) = True"
| "isPrimitive (Str s) = True"
| "isPrimitive v = False"

text \<open>
  Conversion of the proxy to a primitive (string conversion, template interpolation):
  the language reads the property \<^verbatim>\<open>Symbol.toPrimitive\<close>, calls what it gets with the
  hint, and throws a TypeError unless the call returns a primitive.
\<close>

definition toPrimitiveOfMock :: "string \<Rightarrow> jsError + jsvalue" where
  "toPrimitiveOfMock displayToken =
     (case callValue (handler_get displayToken SymbolToPrimitive) [Str ''string''] of
        Inl e \<Rightarrow> Inl e
      | Inr v \<Rightarrow> (if isPrimitive v then Inr v else Inl TypeError))"

text \<open>
  A structural operation is a property read or a call; a chain such as
  \<^verbatim>\<open>foo.bar.baz[0].id()\<close> applies one operation to the result of the one before and
  stops at the first error.
\<close>

datatype operation = GetOp propertyKey | CallOp "jsvalue list"

fun perform :: "(jsvalue \<Rightarrow> propertyKey \<Rightarrow> jsvalue) \<Rightarrow> jsvalue \<Rightarrow> operation \<Rightarrow> jsError + jsvalue" where
  "perform builtin v (GetOp prop) = getValue builtin v prop"
| "perform builtin v (CallOp args) = callValue v args"

fun performAll :: "(jsvalue \<Rightarrow> propertyKey \<Rightarrow> jsvalue) \<Rightarrow> jsvalue \<Rightarrow> operation list \<Rightarrow> jsError + jsvalue" where
  "performAll builtin v [] = Inr v"
| "performAll builtin v (op # ops) =
     (case perform builtin v op of
        Inl e \<Rightarrow> Inl e
      | Inr v' \<Rightarrow> performAll builtin v' ops)"

subsection \<open>MockMorePipe.transform\<close>

text \<open>
  The second parameter: omitted, one field name, or an array of field names. A field
  name is a string, as the cast \<^verbatim>\<open>f as string\<close> of the source has it.
\<close>

datatype fieldsOrField = Omitted | Field string | Fields "string list"

text \<open>
  \<^verbatim>\<open>Array.isArray(fieldsOrField) ? fieldsOrField : fieldsOrField ? [fieldsOrField] : []\<close>;
  the empty string is falsy.
\<close>

definition normalizeFields :: "fieldsOrField \<Rightarrow> string list" where
  "normalizeFields fieldsOrField =
     (case fieldsOrField of
        Fields fs \<Rightarrow> fs
      | Field f \<Rightarrow> (if f = [] then [] else [f])
      | Omitted \<Rightarrow> [])"

text \<open>
  The statement \<^verbatim>\<open>base[f] = createMock(mockLabel)\<close>, on an object that began as the
  literal \<^verbatim>\<open>{ id: i }\<close> and has seen only such statements; the file is a module, so
  the code is strict. \<open>base\<close> is the prototype put in place, if any, and the own
  properties.
  \<^item> When \<open>base\<close> has an own property \<open>f\<close>, its value is replaced.
  \<^item> Otherwise the name \<^verbatim>\<open>__proto__\<close> reaches the setter of \<^verbatim>\<open>Object.prototype\<close>:
    the placeholder becomes the prototype of \<open>base\<close> and no own property is made.
  \<^item> Otherwise, when the prototype of \<open>base\<close> is a placeholder, the assignment goes
    through the proxy (it has no \<^verbatim>\<open>set\<close> trap) to its target function: \<^verbatim>\<open>length\<close>
    and \<^verbatim>\<open>name\<close> are read-only there, \<^verbatim>\<open>caller\<close> and \<^verbatim>\<open>arguments\<close> have a setter
    that throws, and the assignment throws a TypeError.
  \<^item> In every other case \<open>base\<close> gets the own property \<open>f\<close>.
\<close>

definition restrictedNames :: "string set" where
  "restrictedNames = {''length'', ''name'', ''caller'', ''arguments''}"

definition assignMock ::
  "jsvalue option \<times> (string \<Rightarrow> jsvalue option) \<Rightarrow> string \<Rightarrow> string \<Rightarrow>
   jsError + (jsvalue option \<times> (string \<Rightarrow> jsvalue option))" where
  "assignMock base f mockLabel =
     (case base of (proto, own) \<Rightarrow>
        if own f \<noteq> None then Inr (proto, own(f \<mapsto> createMock mockLabel))
        else if f = ''__proto__'' then Inr (Some (createMock mockLabel), own)
        else if proto \<noteq> None \<and> f \<in> restrictedNames then Inl TypeError
        else Inr (proto, own(f \<mapsto> createMock mockLabel)))"

text \<open>\<^verbatim>\<open>for (const f of fields) base[f] = createMock(mockLabel)\<close>, up to the first error.\<close>

fun assignAll ::
  "jsvalue option \<times> (string \<Rightarrow> jsvalue option) \<Rightarrow> string list \<Rightarrow> string \<Rightarrow>
   jsError + (jsvalue option \<times> (string \<Rightarrow> jsvalue option))" where
  "assignAll base [] mockLabel = Inr base"
| "assignAll base (f # fields) mockLabel =
     (case assignMock base f mockLabel of
        Inl e \<Rightarrow> Inl e
      | Inr base' \<Rightarrow> assignAll base' fields mockLabel)"

text \<open>
  The callback of \<^verbatim>\<open>Array.from\<close>: \<^verbatim>\<open>base = { id: i }\<close>, then, when there are
  fields, the assignments, and \<^verbatim>\<open>return base\<close>.
\<close>

definition dummyObject :: "string list \<Rightarrow> string \<Rightarrow> nat \<Rightarrow> jsError + jsvalue" where
  "dummyObject fields mockLabel i =
     (let base = (None, Map.empty(''id'' \<mapsto> Num (Finite (real i))))
      in if length fields > 0
         then (case assignAll base fields mockLabel of
                 Inl e \<Rightarrow> Inl e
               | Inr (proto, own) \<Rightarrow> Inr (Object proto own))
         else Inr (Object None (snd base)))"

text \<open>
  \<open>targetSize\<close> is a \<^verbatim>\<open>number\<close>: any finite number here, an integer or not, of
  either sign (NaN and the infinities are left out). \<^verbatim>\<open>Array.from({ length: len }, f)\<close>
  takes the length cut to an integer, not below 0 and not above \<open>2^53 - 1\<close>; it
  throws a RangeError when that is more than an array can hold, \<open>2^32 - 1\<close>
  elements, and otherwise calls \<open>f\<close> on the indices below the length, in order, up to
  the first call that throws.
\<close>

definition toLength :: "real \<Rightarrow> nat" where
  "toLength len = min (nat \<lfloor>len\<rfloor>) (2 ^ 53 - 1)"

definition maxArrayLength :: nat where
  "maxArrayLength = 2 ^ 32 - 1"

fun collect :: "(jsError + 'a) list \<Rightarrow> jsError + 'a list" where
  "collect [] = Inr []"
| "collect (Inl e # rest) = Inl e"
| "collect (Inr v # rest) =
     (case collect rest of
        Inl e \<Rightarrow> Inl e
      | Inr vs \<Rightarrow> Inr (v # vs))"

definition arrayFrom :: "real \<Rightarrow> (nat \<Rightarrow> jsError + jsvalue) \<Rightarrow> jsError + jsvalue list" where
  "arrayFrom len callback =
     (if toLength len > maxArrayLength then Inl RangeError
      else collect (map callback [0..<toLength len]))"

text \<open>
  The loop \<^verbatim>\<open>while (result.length < targetSize) result.push(...value)\<close>. The spread
  passes the elements of \<open>value\<close> as the arguments of one call, and an engine takes
  only so many arguments in a call (the number differs between engines and is the
  parameter \<open>argumentLimit\<close>): with more, the call throws a RangeError. So does
  \<^verbatim>\<open>push\<close> when the array would become longer than \<open>2^32 - 1\<close>. Nothing in the
  loop itself makes it stop (it would not on an empty \<open>value\<close>), so it is a partial
  function and \<open>None\<close> stands for a loop that runs forever. Running out of memory is
  not modelled.
\<close>

partial_function (option) duplicateLoop ::
  "nat \<Rightarrow> jsvalue list \<Rightarrow> real \<Rightarrow> jsvalue list \<Rightarrow> (jsError + jsvalue list) option" where
  "duplicateLoop argumentLimit value targetSize result =
     (if real (length result) < targetSize
      then (if length value > argumentLimit \<or> length result + length value > maxArrayLength
            then Some (Inl RangeError)
            else duplicateLoop argumentLimit value targetSize (result @ value))
      else Some (Inr result))"

text \<open>
  \<open>transform\<close> itself; \<^verbatim>\<open>[...value]\<close> copies the array without a call. The result is
  \<open>None\<close> when the call never returns, \<open>Some (Inl e)\<close> when it throws \<open>e\<close> and
  \<open>Some (Inr r)\<close> when it returns \<open>r\<close>.
\<close>

definition transform ::
  "nat \<Rightarrow> jsvalue list \<Rightarrow> fieldsOrField \<Rightarrow> real \<Rightarrow> string \<Rightarrow> (jsError + jsvalue list) option" where
  "transform argumentLimit value fieldsOrField targetSize mockLabel =
     (let currentLength = length value in
      if currentLength = 0 then
        (let fields = normalizeFields fieldsOrField
         in Some (arrayFrom targetSize (dummyObject fields mockLabel)))
      else if real currentLength < targetSize
      then duplicateLoop argumentLimit value targetSize value
      else Some (Inr value))"

text \<open>The defaults of the last two parameters.\<close>

definition defaultTargetSize :: real where
  "defaultTargetSize = 100"

definition defaultMockLabel :: string where
  "defaultMockLabel = ''mock''"

text \<open>
  \<open>ceil(targetSize / value.length)\<close>, the number of copies the documentation speaks of.
\<close>

definition copiesNeeded :: "real \<Rightarrow> nat \<Rightarrow> nat" where
  "copiesNeeded targetSize n = nat \<lceil>targetSize / real n\<rceil>"

section \<open>skipUntilNonNull (src/rxjs/operator/skipUntilNonNull.ts)\<close>

text \<open>
  A value of the stream is \<^verbatim>\<open>null\<close>, \<^verbatim>\<open>undefined\<close> or a value of \<open>T\<close>;
  \<^verbatim>\<open>value != null\<close> is false for the first two only.
\<close>

datatype 't nullable = Null | Undefined_value | Value 't

fun notNullish :: "'t nullable \<Rightarrow> bool" where
  "notNullish Null = False"
| "notNullish Undefined_value = False"
| "notNullish (Value v) = True"

text \<open>
  The predicate given to \<^verbatim>\<open>filter\<close>. It reads and writes the variable
  \<^verbatim>\<open>hasEmitted\<close>, so it takes the flag and returns its answer with the new flag.
\<close>

definition filterPredicate :: "bool \<Rightarrow> 't nullable \<Rightarrow> bool \<times> bool" where
  "filterPredicate hasEmitted value =
     (if hasEmitted then (True, hasEmitted)
      else if notNullish value then (True, True)
      else (False, hasEmitted))"

text \<open>
  \<^verbatim>\<open>filter\<close> of rxjs on one subscription: the values of the source go through the
  predicate in order and those it accepts are emitted. The result is what the subscriber
  receives and the flag left behind.
\<close>

fun subscribeFiltered :: "bool \<Rightarrow> 't nullable list \<Rightarrow> 't nullable list \<times> bool" where
  "subscribeFiltered hasEmitted [] = ([], hasEmitted)"
| "subscribeFiltered hasEmitted (value # rest) =
     (let (keep, hasEmitted') = filterPredicate hasEmitted value;
          (emitted, final) = subscribeFiltered hasEmitted' rest
      in (if keep then value # emitted else emitted, final))"

text \<open>
  \<^verbatim>\<open>let hasEmitted = false\<close> runs once per call of \<^verbatim>\<open>skipUntilNonNull()\<close>, not once
  per subscription: every subscription to \<^verbatim>\<open>source.pipe(skipUntilNonNull())\<close> shares
  the flag. \<open>skipUntilNonNull sources\<close> is what the successive subscriptions receive
  when they see the value sequences \<open>sources\<close>, one after the other.
\<close>

fun subscribeEach :: "bool \<Rightarrow> 't nullable list list \<Rightarrow> 't nullable list list" where
  "subscribeEach hasEmitted [] = []"
| "subscribeEach hasEmitted (source # later) =
     (let (emitted, hasEmitted') = subscribeFiltered hasEmitted source
      in emitted # subscribeEach hasEmitted' later)"

definition skipUntilNonNull :: "'t nullable list list \<Rightarrow> 't nullable list list" where
  "skipUntilNonNull sources = subscribeEach False sources"

section \<open>Properties of the tri-state computation\<close>

subsection \<open>What the loops compute\<close>

lemma compareLoop_char:
  "\<not> (hs \<and> hu) \<Longrightarrow>
   compareLoop compareFn stateMapper selectedItems xs hs hu =
     stateMapper
       (if (hs \<or> list_ex (isSelectedBy compareFn selectedItems) xs) \<and>
           (hu \<or> list_ex (\<lambda>x. \<not> isSelectedBy compareFn selectedItems x) xs)
        then Indeterminate_tri
        else if hs \<or> list_ex (isSelectedBy compareFn selectedItems) xs then All_tri
        else None_tri)"
proof (induction xs arbitrary: hs hu)
  case Nil
  then show ?case by simp
next
  case (Cons x xs)
  show ?case
  proof (cases "isSelectedBy compareFn selectedItems x")
    case True
    then have sel: "list_ex (compareFn x) selectedItems"
      by (simp add: isSelectedBy_def)
    show ?thesis
    proof (cases hu)
      case True
      with sel \<open>isSelectedBy compareFn selectedItems x\<close> show ?thesis
        by (simp add: Let_def)
    next
      case False
      have "\<not> (True \<and> hu)" using False by simp
      from Cons.IH [OF this] sel \<open>isSelectedBy compareFn selectedItems x\<close> False
      show ?thesis by (simp add: Let_def)
    qed
  next
    case False
    then have nsel: "\<not> list_ex (compareFn x) selectedItems"
      by (simp add: isSelectedBy_def)
    show ?thesis
    proof (cases hs)
      case True
      with nsel False show ?thesis by (simp add: Let_def)
    next
      case hsF: False
      have "\<not> (hs \<and> True)" using hsF by simp
      from Cons.IH [OF this] nsel False hsF
      show ?thesis by (simp add: Let_def)
    qed
  qed
qed

lemma byCompare_char:
  "computeSelectionTriStateByCompare allItems selectedItems compareFn stateMapper =
     stateMapper
       (if list_ex (isSelectedBy compareFn selectedItems) allItems \<and>
           list_ex (\<lambda>x. \<not> isSelectedBy compareFn selectedItems x) allItems
        then Indeterminate_tri
        else if list_ex (isSelectedBy compareFn selectedItems) allItems then All_tri
        else None_tri)"
  unfolding computeSelectionTriStateByCompare_def
  using compareLoop_char [of False False compareFn stateMapper selectedItems allItems]
  by simp

lemma keyLoop_char:
  "\<not> (hs \<and> hu) \<Longrightarrow>
   keyLoop k stateMapper selectedKeys xs hs hu =
     stateMapper
       (if (hs \<or> list_ex (\<lambda>x. k x None \<in> selectedKeys) xs) \<and>
           (hu \<or> list_ex (\<lambda>x. k x None \<notin> selectedKeys) xs)
        then Indeterminate_tri
        else if hs \<or> list_ex (\<lambda>x. k x None \<in> selectedKeys) xs then All_tri
        else None_tri)"
proof (induction xs arbitrary: hs hu)
  case Nil
  then show ?case by simp
next
  case (Cons x xs)
  show ?case
  proof (cases "k x None \<in> selectedKeys")
    case True
    show ?thesis
    proof (cases hu)
      case huT: True
      with True show ?thesis by (simp add: Let_def)
    next
      case huF: False
      have "\<not> (True \<and> hu)" using huF by simp
      from Cons.IH [OF this] True huF show ?thesis by (simp add: Let_def)
    qed
  next
    case False
    show ?thesis
    proof (cases hs)
      case hsT: True
      with False show ?thesis by (simp add: Let_def)
    next
      case hsF: False
      have "\<not> (hs \<and> True)" using hsF by simp
      from Cons.IH [OF this] False hsF show ?thesis by (simp add: Let_def)
    qed
  qed
qed

lemma byKey_char:
  "computeSelectionTriStateByKey readProperty allItems selectedItems keyOrExtractor stateMapper =
     stateMapper
       (if list_ex (\<lambda>x. resolveExtractor readProperty keyOrExtractor x None \<in>
                set (arrayMap (resolveExtractor readProperty keyOrExtractor) selectedItems)) allItems \<and>
           list_ex (\<lambda>x. resolveExtractor readProperty keyOrExtractor x None \<notin>
                set (arrayMap (resolveExtractor readProperty keyOrExtractor) selectedItems)) allItems
        then Indeterminate_tri
        else if list_ex (\<lambda>x. resolveExtractor readProperty keyOrExtractor x None \<in>
                set (arrayMap (resolveExtractor readProperty keyOrExtractor) selectedItems)) allItems
        then All_tri
        else None_tri)"
  unfolding computeSelectionTriStateByKey_def Let_def
  using keyLoop_char [of False False "resolveExtractor readProperty keyOrExtractor" stateMapper
      "set (arrayMap (resolveExtractor readProperty keyOrExtractor) selectedItems)" allItems]
  by simp

lemma arrayMap_nth:
  "i < length xs \<Longrightarrow> arrayMap f xs ! i = f (xs ! i) (Some (i, xs))"
  by (simp add: arrayMap_def nth_enumerate_eq)

lemma length_arrayMap:
  "length (arrayMap f xs) = length xs"
  by (simp add: arrayMap_def)

lemma arrayMap_ignoring_further:
  assumes "\<forall>i<length xs. f (xs ! i) (Some (i, xs)) = f (xs ! i) None"
  shows "arrayMap f xs = map (\<lambda>x. f x None) xs"
proof (rule nth_equalityI)
  show "length (arrayMap f xs) = length (map (\<lambda>x. f x None) xs)"
    by (simp add: length_arrayMap)
next
  fix i assume "i < length (arrayMap f xs)"
  then have "i < length xs" by (simp add: length_arrayMap)
  with assms show "arrayMap f xs ! i = map (\<lambda>x. f x None) xs ! i"
    by (simp add: arrayMap_nth)
qed


lemma isSelectedBy_iff:
  "isSelectedBy compareFn selectedItems item = (\<exists>s\<in>set selectedItems. compareFn item s)"
  by (simp add: isSelectedBy_def list_ex_iff)

subsection \<open>The three results\<close>

text \<open>
  Claim C1. For all \<open>allItems\<close>, \<open>selectedItems\<close>, \<open>compareFn\<close> and \<open>stateMapper\<close>,
  \<open>computeSelectionTriStateByCompare\<close> returns \<open>stateMapper 'indeterminate'\<close> when some
  item of \<open>allItems\<close> matches an element of \<open>selectedItems\<close> and some item matches
  none; \<open>stateMapper 'all'\<close> when \<open>allItems\<close> is not empty and every item matches;
  and \<open>stateMapper 'none'\<close> when no item matches, the empty \<open>allItems\<close> included.
\<close>

theorem byCompare_three_cases:
  "((\<exists>item\<in>set allItems. \<exists>s\<in>set selectedItems. compareFn item s) \<and>
    (\<exists>item\<in>set allItems. \<forall>s\<in>set selectedItems. \<not> compareFn item s) \<longrightarrow>
      computeSelectionTriStateByCompare allItems selectedItems compareFn stateMapper =
        stateMapper Indeterminate_tri) \<and>
   (allItems \<noteq> [] \<and> (\<forall>item\<in>set allItems. \<exists>s\<in>set selectedItems. compareFn item s) \<longrightarrow>
      computeSelectionTriStateByCompare allItems selectedItems compareFn stateMapper =
        stateMapper All_tri) \<and>
   ((\<forall>item\<in>set allItems. \<forall>s\<in>set selectedItems. \<not> compareFn item s) \<longrightarrow>
      computeSelectionTriStateByCompare allItems selectedItems compareFn stateMapper =
        stateMapper None_tri)"
proof (intro conjI impI)
  assume "(\<exists>item\<in>set allItems. \<exists>s\<in>set selectedItems. compareFn item s) \<and>
          (\<exists>item\<in>set allItems. \<forall>s\<in>set selectedItems. \<not> compareFn item s)"
  then have "list_ex (isSelectedBy compareFn selectedItems) allItems"
    and "list_ex (\<lambda>x. \<not> isSelectedBy compareFn selectedItems x) allItems"
    by (auto simp: list_ex_iff isSelectedBy_iff)
  then show "computeSelectionTriStateByCompare allItems selectedItems compareFn stateMapper =
             stateMapper Indeterminate_tri"
    by (simp add: byCompare_char)
next
  assume a: "allItems \<noteq> [] \<and> (\<forall>item\<in>set allItems. \<exists>s\<in>set selectedItems. compareFn item s)"
  then obtain x where "x \<in> set allItems"
    by (cases allItems) auto
  with a have "list_ex (isSelectedBy compareFn selectedItems) allItems"
    and "\<not> list_ex (\<lambda>x. \<not> isSelectedBy compareFn selectedItems x) allItems"
    by (auto simp: list_ex_iff isSelectedBy_iff)
  then show "computeSelectionTriStateByCompare allItems selectedItems compareFn stateMapper =
             stateMapper All_tri"
    by (simp add: byCompare_char)
next
  assume "\<forall>item\<in>set allItems. \<forall>s\<in>set selectedItems. \<not> compareFn item s"
  then have "\<not> list_ex (isSelectedBy compareFn selectedItems) allItems"
    by (auto simp: list_ex_iff isSelectedBy_iff)
  then show "computeSelectionTriStateByCompare allItems selectedItems compareFn stateMapper =
             stateMapper None_tri"
    by (simp add: byCompare_char)
qed

theorem byCompare_three_cases_witness:
  "computeSelectionTriStateByCompare [1, 2, 3 :: nat] [2] (=) defaultStateMapper = Indeterminate_tri \<and>
   computeSelectionTriStateByCompare [1, 2 :: nat] [2, 3, 1] (=) defaultStateMapper = All_tri \<and>
   computeSelectionTriStateByCompare [1, 2 :: nat] [3] (=) defaultStateMapper = None_tri \<and>
   computeSelectionTriStateByCompare ([] :: nat list) [3] (=) defaultStateMapper = None_tri"
proof -
  have h1: "(\<exists>item\<in>set [1, 2, 3 :: nat]. \<exists>s\<in>set [2]. item = s) \<and>
            (\<exists>item\<in>set [1, 2, 3 :: nat]. \<forall>s\<in>set [2]. \<not> item = s)"
    by simp
  have h2: "[1, 2 :: nat] \<noteq> [] \<and> (\<forall>item\<in>set [1, 2 :: nat]. \<exists>s\<in>set [2, 3, 1]. item = s)"
    by simp
  have h3: "\<forall>item\<in>set [1, 2 :: nat]. \<forall>s\<in>set [3]. \<not> item = s"
    by simp
  have h4: "\<forall>item\<in>set ([] :: nat list). \<forall>s\<in>set [3]. \<not> item = s"
    by simp
  note c1 = byCompare_three_cases [of "[1, 2, 3 :: nat]" "[2]" "(=)" defaultStateMapper,
      THEN conjunct1, THEN mp, OF h1]
  note c2 = byCompare_three_cases [of "[1, 2 :: nat]" "[2, 3, 1]" "(=)" defaultStateMapper,
      THEN conjunct2, THEN conjunct1, THEN mp, OF h2]
  note c3 = byCompare_three_cases [of "[1, 2 :: nat]" "[3]" "(=)" defaultStateMapper,
      THEN conjunct2, THEN conjunct2, THEN mp, OF h3]
  note c4 = byCompare_three_cases [of "[] :: nat list" "[3]" "(=)" defaultStateMapper,
      THEN conjunct2, THEN conjunct2, THEN mp, OF h4]
  from c1 c2 c3 c4 show ?thesis
    by (simp add: defaultStateMapper_def)
qed

text \<open>
  Claim C3, as the source has it. \<open>computeSelectionTriStateByKey\<close> looks keys up in a
  \<^verbatim>\<open>Set\<close>, where NaN is found again, while \<^verbatim>\<open>k(a) === k(b)\<close> is false when both
  keys are NaN: an item whose key is NaN is selected under the key form and not under
  the comparator form. And the keys of \<open>selectedItems\<close> come from
  \<^verbatim>\<open>selectedItems.map(extractor)\<close>, which passes the index as a second argument: with
  \<^verbatim>\<open>k = (item, salt = 0) => item + salt\<close>, \<open>allItems = [5]\<close> and
  \<open>selectedItems = [1, 5]\<close> the set of keys is \<open>{1, 6}\<close>, the key form returns
  \<open>'none'\<close> and the comparator form \<open>'all'\<close>.
\<close>

theorem byKey_strict_compare_counterexample:
  "computeSelectionTriStateByKey (\<lambda>(item :: nat) (name :: unit). KeyNumber NaN) [0] [0]
     (Extractor (\<lambda>item further. if item = 0 then KeyNumber NaN else KeyNumber (Finite (real item))))
     defaultStateMapper = All_tri \<and>
   computeSelectionTriStateByCompare [0 :: nat] [0]
     (\<lambda>a b. strictEquals (if a = 0 then KeyNumber NaN else KeyNumber (Finite (real a)))
                          (if b = 0 then KeyNumber NaN else KeyNumber (Finite (real b))))
     defaultStateMapper = None_tri \<and>
   computeSelectionTriStateByKey (\<lambda>(item :: real) (name :: unit). KeyNumber NaN) [5] [1, 5]
     (Extractor (\<lambda>item further. KeyNumber (Finite (item +
        (case further of None \<Rightarrow> 0 | Some (index, array) \<Rightarrow> real index)))))
     defaultStateMapper = None_tri \<and>
   computeSelectionTriStateByCompare [5 :: real] [1, 5]
     (\<lambda>a b. strictEquals (KeyNumber (Finite (a + 0))) (KeyNumber (Finite (b + 0))))
     defaultStateMapper = All_tri"
  by (simp add: computeSelectionTriStateByKey_def computeSelectionTriStateByCompare_def
      resolveExtractor_def strictEquals_def defaultStateMapper_def arrayMap_def)

text \<open>
  Claim C3, amended. When the key extractor \<open>k\<close> returns for every item of
  \<open>selectedItems\<close> the same key whether it is called with the item alone or, as
  \<^verbatim>\<open>map\<close> calls it, with the item, its index and the array (a property name always
  does), and \<open>k\<close> yields NaN on no item of \<open>allItems\<close> or on no item of
  \<open>selectedItems\<close>, \<open>computeSelectionTriStateByKey\<close> returns what
  \<open>computeSelectionTriStateByCompare\<close> returns with the comparator
  \<^verbatim>\<open>(a, b) => k(a) === k(b)\<close>, for every \<open>allItems\<close>, \<open>selectedItems\<close> and
  \<open>stateMapper\<close>.
\<close>

theorem byKey_agrees_with_strict_compare:
  assumes "\<forall>i<length selectedItems.
             resolveExtractor readProperty keyOrExtractor (selectedItems ! i) (Some (i, selectedItems)) =
             resolveExtractor readProperty keyOrExtractor (selectedItems ! i) None"
    and "(\<forall>a\<in>set allItems. resolveExtractor readProperty keyOrExtractor a None \<noteq> KeyNumber NaN) \<or>
         (\<forall>s\<in>set selectedItems. resolveExtractor readProperty keyOrExtractor s None \<noteq> KeyNumber NaN)"
  shows "computeSelectionTriStateByKey readProperty allItems selectedItems keyOrExtractor stateMapper =
         computeSelectionTriStateByCompare allItems selectedItems
           (\<lambda>a b. strictEquals (resolveExtractor readProperty keyOrExtractor a None)
                                (resolveExtractor readProperty keyOrExtractor b None))
           stateMapper"
proof -
  let ?k = "resolveExtractor readProperty keyOrExtractor"
  let ?K = "set (arrayMap ?k selectedItems)"
  let ?cmp = "\<lambda>a b. strictEquals (?k a None) (?k b None)"
  have keys: "?K = (\<lambda>s. ?k s None) ` set selectedItems"
    using arrayMap_ignoring_further [OF assms(1)] by simp
  have same: "(?k x None \<in> ?K) = isSelectedBy ?cmp selectedItems x"
    if "x \<in> set allItems" for x
  proof (cases "?k x None = KeyNumber NaN")
    case False
    then show ?thesis
      unfolding keys by (auto simp: isSelectedBy_iff strictEquals_def)
  next
    case True
    with assms(2) that have "\<forall>s\<in>set selectedItems. ?k s None \<noteq> KeyNumber NaN"
      by blast
    with True show ?thesis
      unfolding keys by (auto simp: isSelectedBy_iff strictEquals_def)
  qed
  have pos: "list_ex (\<lambda>x. ?k x None \<in> ?K) allItems =
             list_ex (isSelectedBy ?cmp selectedItems) allItems"
    using same by (simp add: list_ex_iff)
  have neg: "list_ex (\<lambda>x. ?k x None \<notin> ?K) allItems =
             list_ex (\<lambda>x. \<not> isSelectedBy ?cmp selectedItems x) allItems"
    using same by (simp add: list_ex_iff)
  show ?thesis
    by (simp only: byKey_char byCompare_char pos neg)
qed

theorem byKey_agrees_with_strict_compare_witness:
  "computeSelectionTriStateByKey (\<lambda>(item :: real) (name :: string). KeyNumber (Finite item))
     [1, 2, 3] [2] (PropertyName ''k'') defaultStateMapper = Indeterminate_tri \<and>
   computeSelectionTriStateByCompare [1, 2, 3 :: real] [2]
     (\<lambda>a b. strictEquals (KeyNumber (Finite a)) (KeyNumber (Finite b))) defaultStateMapper =
     Indeterminate_tri"
proof -
  let ?rp = "\<lambda>(item :: real) (name :: string). KeyNumber (Finite item)"
  have h1: "\<forall>i<length [2 :: real].
      resolveExtractor ?rp (PropertyName ''k'') ([2] ! i) (Some (i, [2])) =
      resolveExtractor ?rp (PropertyName ''k'') ([2] ! i) None"
    by (simp add: resolveExtractor_def)
  have h2: "(\<forall>a\<in>set [1, 2, 3 :: real]. resolveExtractor ?rp (PropertyName ''k'') a None \<noteq> KeyNumber NaN) \<or>
           (\<forall>s\<in>set [2 :: real]. resolveExtractor ?rp (PropertyName ''k'') s None \<noteq> KeyNumber NaN)"
    by (simp add: resolveExtractor_def)
  have r: "computeSelectionTriStateByCompare [1, 2, 3 :: real] [2]
     (\<lambda>a b. strictEquals (KeyNumber (Finite a)) (KeyNumber (Finite b))) defaultStateMapper =
     Indeterminate_tri"
    by (simp add: computeSelectionTriStateByCompare_def strictEquals_def defaultStateMapper_def)
  from byKey_agrees_with_strict_compare [OF h1 h2, of defaultStateMapper] r show ?thesis
    by (simp add: resolveExtractor_def)
qed




text \<open>
  Claim C8. When at least one item of \<open>allItems\<close> matches \<open>selectedItems\<close> and at
  least one does not, \<open>computeSelectionTriStateByCompare\<close> returns \<open>'indeterminate'\<close>,
  and it returns the same on every permutation of \<open>allItems\<close>: the early return of
  the loop does not make the result depend on the order.
\<close>

theorem mixed_selection_any_order:
  assumes "\<exists>item\<in>set allItems. \<exists>s\<in>set selectedItems. compareFn item s"
    and "\<exists>item\<in>set allItems. \<forall>s\<in>set selectedItems. \<not> compareFn item s"
    and "mset permuted = mset allItems"
  shows "computeSelectionTriStateByCompare allItems selectedItems compareFn stateMapper =
           stateMapper Indeterminate_tri \<and>
         computeSelectionTriStateByCompare permuted selectedItems compareFn stateMapper =
           computeSelectionTriStateByCompare allItems selectedItems compareFn stateMapper"
proof -
  have eq: "set permuted = set allItems"
    using assms(3) by (rule mset_eq_setD)
  from assms(1,2) have "list_ex (isSelectedBy compareFn selectedItems) allItems"
    and "list_ex (\<lambda>x. \<not> isSelectedBy compareFn selectedItems x) allItems"
    by (auto simp: list_ex_iff isSelectedBy_iff)
  moreover from this have "list_ex (isSelectedBy compareFn selectedItems) permuted"
    and "list_ex (\<lambda>x. \<not> isSelectedBy compareFn selectedItems x) permuted"
    by (simp_all add: list_ex_iff eq)
  ultimately show ?thesis
    by (simp add: byCompare_char)
qed

theorem mixed_selection_any_order_witness:
  "computeSelectionTriStateByCompare [1, 2, 3 :: nat] [2] (=) defaultStateMapper = Indeterminate_tri \<and>
   computeSelectionTriStateByCompare [3, 1, 2 :: nat] [2] (=) defaultStateMapper =
   computeSelectionTriStateByCompare [1, 2, 3 :: nat] [2] (=) defaultStateMapper"
proof -
  have h1: "\<exists>item\<in>set [1, 2, 3 :: nat]. \<exists>s\<in>set [2]. item = s"
    by simp
  have h2: "\<exists>item\<in>set [1, 2, 3 :: nat]. \<forall>s\<in>set [2]. \<not> item = s"
    by simp
  have h3: "mset [3, 1, 2 :: nat] = mset [1, 2, 3]"
    by simp
  from mixed_selection_any_order [OF h1 h2 h3, of defaultStateMapper] show ?thesis
    by (simp add: defaultStateMapper_def)
qed

text \<open>
  The result never depends on the order of \<open>allItems\<close>, whatever the selection is.
\<close>

lemma byCompare_order_independent:
  "mset permuted = mset allItems \<Longrightarrow>
   computeSelectionTriStateByCompare permuted selectedItems compareFn stateMapper =
   computeSelectionTriStateByCompare allItems selectedItems compareFn stateMapper"
proof -
  assume "mset permuted = mset allItems"
  then have "set permuted = set allItems"
    by (rule mset_eq_setD)
  then show ?thesis
    by (simp add: byCompare_char list_ex_iff)
qed

section \<open>Properties of the mockMore pipe\<close>

subsection \<open>The duplication loop\<close>

lemma length_concat_replicate:
  "length (concat (replicate j xs)) = j * length xs"
  by (induction j) simp_all

lemma concat_replicate_Suc_end:
  "concat (replicate (Suc j) xs) = concat (replicate j xs) @ xs"
  by (induction j) simp_all

lemma ceiling_distance_decreases:
  fixes x d :: real
  assumes "0 < x" and "1 \<le> d"
  shows "nat \<lceil>x - d\<rceil> < nat \<lceil>x\<rceil>"
proof -
  have "\<lceil>x - d\<rceil> \<le> \<lceil>x - 1\<rceil>"
    using assms(2) by (intro ceiling_mono) simp
  also have "\<dots> = \<lceil>x\<rceil> - 1"
    by (rule ceiling_diff_one)
  finally have "\<lceil>x - d\<rceil> < \<lceil>x\<rceil>"
    by simp
  moreover have "0 < \<lceil>x\<rceil>"
    using assms(1) by (simp only: zero_less_ceiling)
  ultimately show ?thesis
    by linarith
qed

lemma copiesNeeded_unique:
  assumes "0 < n" and "(real j - 1) * real n < targetSize" and "targetSize \<le> real j * real n"
  shows "copiesNeeded targetSize n = j"
proof -
  have npos: "0 < real n" using assms(1) by simp
  have "real_of_int (int j) - 1 < targetSize / real n"
    using assms(2) npos by (simp add: pos_less_divide_eq)
  moreover have "targetSize / real n \<le> real_of_int (int j)"
    using assms(3) npos by (simp add: pos_divide_le_eq)
  ultimately have "\<lceil>targetSize / real n\<rceil> = int j"
    by (rule ceiling_unique)
  then show ?thesis
    by (simp add: copiesNeeded_def)
qed

lemma copiesNeeded_enough:
  assumes "0 < n"
  shows "targetSize \<le> real (copiesNeeded targetSize n * n)"
proof (cases "0 \<le> targetSize")
  case False
  moreover have "0 \<le> real (copiesNeeded targetSize n * n)"
    by (rule of_nat_0_le_iff)
  ultimately show ?thesis by linarith
next
  case True
  have npos: "0 < real n" using assms by simp
  have q: "0 \<le> targetSize / real n"
    using True by simp
  have c: "0 \<le> \<lceil>targetSize / real n\<rceil>"
    using ceiling_mono [OF q] by simp
  have "targetSize \<le> real_of_int \<lceil>targetSize / real n\<rceil> * real n"
    by (rule iffD1 [OF pos_divide_le_eq [OF npos]]) (rule le_of_int_ceiling)
  also have "real_of_int \<lceil>targetSize / real n\<rceil> = real (nat \<lceil>targetSize / real n\<rceil>)"
    using c by simp
  finally show ?thesis
    by (simp add: copiesNeeded_def)
qed

lemma copiesNeeded_least:
  assumes "0 < n" and "targetSize \<le> real (m * n)"
  shows "copiesNeeded targetSize n \<le> m"
proof -
  have npos: "0 < real n" using assms(1) by simp
  have "targetSize \<le> real_of_int (int m) * real n"
    using assms(2) by simp
  then have "targetSize / real n \<le> real_of_int (int m)"
    using npos by (simp add: pos_divide_le_eq)
  then have "\<lceil>targetSize / real n\<rceil> \<le> int m"
    by (rule ceiling_le)
  then show ?thesis
    by (simp only: copiesNeeded_def nat_le_iff)
qed

lemma copiesNeeded_more:
  assumes "0 < n" and "real j * real n < targetSize"
  shows "Suc j \<le> copiesNeeded targetSize n"
proof -
  have "targetSize \<le> real (copiesNeeded targetSize n * n)"
    using assms(1) by (rule copiesNeeded_enough)
  with assms(2) have "real (j * n) < real (copiesNeeded targetSize n * n)"
    by simp
  then have "j * n < copiesNeeded targetSize n * n"
    by (simp only: of_nat_less_iff)
  then have "j < copiesNeeded targetSize n"
    by simp
  then show ?thesis by simp
qed

lemma duplicateLoop_copies:
  assumes "value \<noteq> []"
    and "length value \<le> argumentLimit"
    and "copiesNeeded targetSize (length value) * length value \<le> maxArrayLength"
  shows "(real j - 1) * real (length value) < targetSize \<Longrightarrow>
         duplicateLoop argumentLimit value targetSize (concat (replicate j value)) =
           Some (Inr (concat (replicate (copiesNeeded targetSize (length value)) value)))"
proof (induction "nat \<lceil>targetSize - real j * real (length value)\<rceil>" arbitrary: j rule: less_induct)
  case less
  have pos: "0 < length value" using assms(1) by simp
  have one: "1 \<le> real (length value)"
    using assms(1) by (cases "value") simp_all
  show ?case
  proof (cases "real (length (concat (replicate j value))) < targetSize")
    case True
    then have below: "real j * real (length value) < targetSize"
      by (simp add: length_concat_replicate)
    then have lt: "0 < targetSize - real j * real (length value)"
      by simp
    have decr: "nat \<lceil>targetSize - real j * real (length value) - real (length value)\<rceil> <
          nat \<lceil>targetSize - real j * real (length value)\<rceil>"
      using lt one by (rule ceiling_distance_decreases)
    have eq: "targetSize - real (Suc j) * real (length value) =
              targetSize - real j * real (length value) - real (length value)"
      by (simp add: algebra_simps)
    have smaller: "nat \<lceil>targetSize - real (Suc j) * real (length value)\<rceil> <
                   nat \<lceil>targetSize - real j * real (length value)\<rceil>"
      unfolding eq by (rule decr)
    have pre: "(real (Suc j) - 1) * real (length value) < targetSize"
      using below by simp
    have "Suc j \<le> copiesNeeded targetSize (length value)"
      using pos below by (rule copiesNeeded_more)
    then have "Suc j * length value \<le> copiesNeeded targetSize (length value) * length value"
      by (rule mult_le_mono1)
    from this assms(3) have "Suc j * length value \<le> maxArrayLength"
      by (rule le_trans)
    then have fits: "\<not> (length value > argumentLimit \<or>
        length (concat (replicate j value)) + length value > maxArrayLength)"
      using assms(2) by (simp add: length_concat_replicate)
    have "duplicateLoop argumentLimit value targetSize (concat (replicate j value)) =
          duplicateLoop argumentLimit value targetSize (concat (replicate (Suc j) value))"
      using True fits
      by (subst duplicateLoop.simps) (simp only: concat_replicate_Suc_end if_True if_False)
    also have "\<dots> =
        Some (Inr (concat (replicate (copiesNeeded targetSize (length value)) value)))"
      using smaller pre by (rule less.hyps)
    finally show ?thesis .
  next
    case False
    then have ge: "targetSize \<le> real j * real (length value)"
      by (simp add: length_concat_replicate)
    have "copiesNeeded targetSize (length value) = j"
      using pos less.prems ge by (rule copiesNeeded_unique)
    moreover have "duplicateLoop argumentLimit value targetSize (concat (replicate j value)) =
          Some (Inr (concat (replicate j value)))"
      using False by (subst duplicateLoop.simps) (simp only: if_False)
    ultimately show ?thesis by simp
  qed
qed

lemma duplicateLoop_terminates:
  assumes "value \<noteq> []"
  shows "\<exists>res. duplicateLoop argumentLimit value targetSize result = Some res \<and>
           (\<forall>r. res = Inr r \<longrightarrow> targetSize \<le> real (length r))"
proof (induction "nat \<lceil>targetSize - real (length result)\<rceil>" arbitrary: result rule: less_induct)
  case less
  have one: "1 \<le> real (length value)"
    using assms by (cases "value") simp_all
  show ?case
  proof (cases "real (length result) < targetSize")
    case True
    show ?thesis
    proof (cases "length value > argumentLimit \<or> length result + length value > maxArrayLength")
      case thrown: True
      have "duplicateLoop argumentLimit value targetSize result = Some (Inl RangeError)"
        using True thrown by (subst duplicateLoop.simps) (simp only: if_True)
      then show ?thesis by simp
    next
      case fits: False
      from True have "0 < targetSize - real (length result)" by simp
      then have decr: "nat \<lceil>targetSize - real (length result) - real (length value)\<rceil> <
                 nat \<lceil>targetSize - real (length result)\<rceil>"
        using one by (rule ceiling_distance_decreases)
      have eq: "targetSize - real (length (result @ value)) =
                targetSize - real (length result) - real (length value)"
        by simp
      have "nat \<lceil>targetSize - real (length (result @ value))\<rceil> <
            nat \<lceil>targetSize - real (length result)\<rceil>"
        unfolding eq by (rule decr)
      then obtain res where "duplicateLoop argumentLimit value targetSize (result @ value) = Some res"
        and "\<forall>r. res = Inr r \<longrightarrow> targetSize \<le> real (length r)"
        using less.hyps by blast
      moreover have "duplicateLoop argumentLimit value targetSize result =
                     duplicateLoop argumentLimit value targetSize (result @ value)"
        using True fits by (subst duplicateLoop.simps) (simp only: if_True if_False)
      ultimately show ?thesis by simp
    qed
  next
    case False
    have "duplicateLoop argumentLimit value targetSize result = Some (Inr result)"
      using False by (subst duplicateLoop.simps) (simp only: if_False)
    with False show ?thesis by simp
  qed
qed

text \<open>
  Within the two limits the pipe does what its documentation says: for a non-empty
  \<open>value\<close> shorter than \<open>targetSize\<close> the result is \<open>ceil(targetSize / value.length)\<close>
  copies of \<open>value\<close>, the least multiple of \<open>value.length\<close> that is at least
  \<open>targetSize\<close>; \<open>[1, 2, 3]\<close> with target size 10 gives \<open>[1, 2, 3]\<close> four times.
\<close>

lemma transform_duplicates_within_limits:
  assumes "value \<noteq> []" and "real (length value) < targetSize"
    and "length value \<le> argumentLimit"
    and "copiesNeeded targetSize (length value) * length value \<le> maxArrayLength"
  shows "transform argumentLimit value fieldsOrField targetSize mockLabel =
           Some (Inr (concat (replicate (copiesNeeded targetSize (length value)) value))) \<and>
         length (concat (replicate (copiesNeeded targetSize (length value)) value)) =
           copiesNeeded targetSize (length value) * length value \<and>
         targetSize \<le> real (copiesNeeded targetSize (length value) * length value) \<and>
         (\<forall>m. targetSize \<le> real (m * length value) \<longrightarrow>
              copiesNeeded targetSize (length value) * length value \<le> m * length value)"
proof -
  have pos: "0 < length value" using assms(1) by simp
  have "(real 1 - 1) * real (length value) < targetSize"
    using assms(2) by simp
  from duplicateLoop_copies [OF assms(1) assms(3) assms(4) this]
  have "duplicateLoop argumentLimit value targetSize value =
        Some (Inr (concat (replicate (copiesNeeded targetSize (length value)) value)))"
    by simp
  then have "transform argumentLimit value fieldsOrField targetSize mockLabel =
        Some (Inr (concat (replicate (copiesNeeded targetSize (length value)) value)))"
    using assms(1,2) by (simp add: transform_def)
  moreover have "\<forall>m. targetSize \<le> real (m * length value) \<longrightarrow>
      copiesNeeded targetSize (length value) * length value \<le> m * length value"
    using copiesNeeded_least [OF pos] by simp
  moreover note copiesNeeded_enough [OF pos, of targetSize]
  ultimately show ?thesis
    by (simp only: length_concat_replicate simp_thms)
qed

lemma transform_duplicates_example:
  "transform 65536 [Num (Finite 1), Num (Finite 2), Num (Finite 3)] Omitted 10 ''mock'' =
     Some (Inr [Num (Finite 1), Num (Finite 2), Num (Finite 3),
                Num (Finite 1), Num (Finite 2), Num (Finite 3),
                Num (Finite 1), Num (Finite 2), Num (Finite 3),
                Num (Finite 1), Num (Finite 2), Num (Finite 3)])"
proof -
  let ?v = "[Num (Finite 1), Num (Finite 2), Num (Finite 3)]"
  have h1: "?v \<noteq> []" by simp
  have h2: "real (length ?v) < 10" by simp
  have h3: "length ?v \<le> 65536" by simp
  have c: "copiesNeeded 10 (length ?v) = 4"
    by (rule copiesNeeded_unique) simp_all
  have h4: "copiesNeeded 10 (length ?v) * length ?v \<le> maxArrayLength"
    unfolding c by (simp add: maxArrayLength_def)
  have r: "replicate 4 ?v = [?v, ?v, ?v, ?v]"
    by (simp add: numeral_eq_Suc)
  from transform_duplicates_within_limits [OF h1 h2 h3 h4, of Omitted "''mock''"] show ?thesis
    unfolding c r by simp
qed

text \<open>
  Claim C4 says that for every non-empty \<open>value\<close> shorter than \<open>targetSize\<close> the pipe
  returns \<open>ceil(targetSize / value.length)\<close> copies of \<open>value\<close>, and the documentation
  of \<open>transform\<close> says that it repeats the data until the target size is reached. The
  loop appends with \<^verbatim>\<open>result.push(...value)\<close>, which passes the whole of \<open>value\<close> as
  arguments of one call: on an array of 200000 elements with the target size 300000,
  in an engine that takes fewer than 200000 arguments in a call, the first
  \<^verbatim>\<open>push\<close> throws a RangeError and nothing is returned.
\<close>

theorem transform_spread_throws:
  assumes "argumentLimit < 200000"
  shows "transform argumentLimit (replicate 200000 item) fieldsOrField 300000 mockLabel =
           Some (Inl RangeError)"
proof -
  let ?v = "replicate 200000 item"
  have len: "length ?v = 200000" by simp
  have ne: "length ?v \<noteq> 0" by simp
  have below: "real (length ?v) < 300000" by simp
  have over: "length ?v > argumentLimit \<or> length ?v + length ?v > maxArrayLength"
    using assms by simp
  have "duplicateLoop argumentLimit ?v 300000 ?v = Some (Inl RangeError)"
    using below over by (subst duplicateLoop.simps) (simp only: if_True)
  then show ?thesis
    using ne below by (simp only: transform_def Let_def if_True if_False)
qed

theorem transform_spread_throws_witness:
  "transform 65536 (replicate 200000 (Num (Finite 0))) Omitted 300000 ''mock'' =
     Some (Inl RangeError)"
proof -
  have h: "(65536 :: nat) < 200000" by simp
  from transform_spread_throws [OF h] show ?thesis .
qed

subsection \<open>The empty input\<close>

lemma assignAll_plain:
  "''__proto__'' \<notin> set fields \<Longrightarrow>
   assignAll (None, own) fields mockLabel =
     Inr (None, \<lambda>name. if name \<in> set fields then Some (createMock mockLabel) else own name)"
proof (induction fields arbitrary: own)
  case Nil
  show ?case by simp
next
  case (Cons f fields)
  then have f: "f \<noteq> ''__proto__''" and rest: "''__proto__'' \<notin> set fields"
    by auto
  have step: "assignMock (None, own) f mockLabel = Inr (None, own(f \<mapsto> createMock mockLabel))"
    using f by (simp add: assignMock_def)
  have "assignAll (None, own) (f # fields) mockLabel =
        assignAll (None, own(f \<mapsto> createMock mockLabel)) fields mockLabel"
    by (simp add: step)
  also have "\<dots> = Inr (None, \<lambda>name. if name \<in> set fields then Some (createMock mockLabel)
                                     else (own(f \<mapsto> createMock mockLabel)) name)"
    using rest by (rule Cons.IH)
  also have "(\<lambda>name. if name \<in> set fields then Some (createMock mockLabel)
                      else (own(f \<mapsto> createMock mockLabel)) name) =
             (\<lambda>name. if name \<in> set (f # fields) then Some (createMock mockLabel) else own name)"
    by (auto simp: fun_eq_iff)
  finally show ?case .
qed

lemma dummyObject_fields:
  assumes "''__proto__'' \<notin> set fields"
  shows "dummyObject fields mockLabel i =
     Inr (Object None (\<lambda>name. if name \<in> set fields then Some (createMock mockLabel)
                     else if name = ''id'' then Some (Num (Finite (real i))) else None))"
proof (cases fields)
  case Nil
  then show ?thesis
    by (auto simp: dummyObject_def fun_eq_iff)
next
  case (Cons f fs)
  have "(\<lambda>name. if name \<in> set fields then Some (createMock mockLabel)
                 else (Map.empty(''id'' \<mapsto> Num (Finite (real i)))) name) =
        (\<lambda>name. if name \<in> set fields then Some (createMock mockLabel)
                 else if name = ''id'' then Some (Num (Finite (real i))) else None)"
    by (auto simp: fun_eq_iff)
  with Cons assignAll_plain [OF assms, of "Map.empty(''id'' \<mapsto> Num (Finite (real i)))" mockLabel]
  show ?thesis
    by (simp add: dummyObject_def)
qed

lemma collect_map_Inr:
  "collect (map (\<lambda>i. Inr (g i)) xs) = Inr (map g xs)"
  by (induction xs) simp_all

lemma collect_length:
  "collect xs = Inr r \<Longrightarrow> length r = length xs"
proof (induction xs arbitrary: r)
  case Nil
  then show ?case by simp
next
  case (Cons x xs)
  then show ?case
    by (cases x; cases "collect xs") auto
qed

lemma toLength_of_nat:
  "n \<le> maxArrayLength \<Longrightarrow> toLength (real n) = n"
  by (simp add: toLength_def maxArrayLength_def)

lemma arrayFrom_length:
  "arrayFrom len callback = Inr r \<Longrightarrow> length r = toLength len \<and> toLength len \<le> maxArrayLength"
  by (auto simp: arrayFrom_def split: if_splits dest: collect_length)

lemma transform_empty_records:
  assumes "n \<le> maxArrayLength" and "''__proto__'' \<notin> set fields"
  shows "transform argumentLimit [] (Fields fields) (real n) mockLabel =
     Some (Inr (map (\<lambda>i. Object None (\<lambda>name. if name \<in> set fields then Some (createMock mockLabel)
                     else if name = ''id'' then Some (Num (Finite (real i))) else None)) [0..<n]))"
proof -
  let ?g = "\<lambda>i. Object None (\<lambda>name. if name \<in> set fields then Some (createMock mockLabel)
                     else if name = ''id'' then Some (Num (Finite (real i))) else None)"
  have fits: "\<not> toLength (real n) > maxArrayLength"
    using assms(1) by (simp add: toLength_of_nat)
  have "dummyObject fields mockLabel = (\<lambda>i. Inr (?g i))"
    using dummyObject_fields [OF assms(2)] by (simp add: fun_eq_iff)
  then have "arrayFrom (real n) (dummyObject fields mockLabel) = Inr (map ?g [0..<n])"
    using fits assms(1) by (simp add: arrayFrom_def toLength_of_nat collect_map_Inr)
  then show ?thesis
    by (simp add: transform_def normalizeFields_def)
qed

text \<open>
  Claim C5, as stated, speaks of every \<open>targetSize\<close> and every list of field names.
  A negative \<open>targetSize\<close> gives no record at all and a \<open>targetSize\<close> of \<open>5/2\<close> gives two
  records, not \<open>targetSize\<close> records, and with \<open>2^32\<close> \<^verbatim>\<open>Array.from\<close> throws. When
  \<open>id\<close> is itself one of the field names, the assignment of the placeholder replaces
  the index, so the \<open>id\<close> field of the record is the placeholder and not \<open>i\<close>; and
  the field name \<^verbatim>\<open>__proto__\<close> makes the placeholder the prototype of the record,
  which gets no field of that name.
\<close>

theorem transform_empty_counterexample:
  "transform 65536 [] (Fields []) (- 1) ''mock'' = Some (Inr []) \<and>
   transform 65536 [] (Fields []) (5 / 2) ''mock'' =
     Some (Inr [Object None (Map.empty(''id'' \<mapsto> Num (Finite 0))),
                Object None (Map.empty(''id'' \<mapsto> Num (Finite 1)))]) \<and>
   transform 65536 [] (Fields []) 4294967296 ''mock'' = Some (Inl RangeError) \<and>
   transform 65536 [] (Fields [''id'']) 1 ''mock'' =
     Some (Inr [Object None (Map.empty(''id'' \<mapsto> createMock ''mock''))]) \<and>
   createMock ''mock'' \<noteq> Num (Finite 0) \<and>
   transform 65536 [] (Fields [''__proto__'']) 1 ''mock'' =
     Some (Inr [Object (Some (createMock ''mock'')) (Map.empty(''id'' \<mapsto> Num (Finite 0)))])"
proof -
  have a: "toLength (- 1) = 0" by (simp add: toLength_def)
  have b: "toLength (5 / 2) = 2" by (simp add: toLength_def)
  have c: "toLength 1 = 1" by (simp add: toLength_def)
  have d: "toLength 4294967296 = 4294967296" by (simp add: toLength_def)
  have u: "[0..<2] = [0, 1]" by (simp add: upt_rec)
  have m: "maxArrayLength = 4294967295" by (simp add: maxArrayLength_def)
  have p1: "transform 65536 [] (Fields []) (- 1) ''mock'' = Some (Inr [])"
    by (simp add: transform_def normalizeFields_def arrayFrom_def a)
  have p2: "transform 65536 [] (Fields []) (5 / 2) ''mock'' =
     Some (Inr [Object None (Map.empty(''id'' \<mapsto> Num (Finite 0))),
                Object None (Map.empty(''id'' \<mapsto> Num (Finite 1)))])"
    by (simp add: transform_def normalizeFields_def arrayFrom_def dummyObject_def b u m)
  have p3: "transform 65536 [] (Fields []) 4294967296 ''mock'' = Some (Inl RangeError)"
    by (simp add: transform_def normalizeFields_def arrayFrom_def d m)
  have p4: "transform 65536 [] (Fields [''id'']) 1 ''mock'' =
     Some (Inr [Object None (Map.empty(''id'' \<mapsto> createMock ''mock''))])"
    by (simp add: transform_def normalizeFields_def arrayFrom_def dummyObject_def assignMock_def c m)
  have p5: "createMock ''mock'' \<noteq> Num (Finite 0)"
    by (simp add: createMock_def)
  have p6: "transform 65536 [] (Fields [''__proto__'']) 1 ''mock'' =
     Some (Inr [Object (Some (createMock ''mock'')) (Map.empty(''id'' \<mapsto> Num (Finite 0)))])"
    by (simp add: transform_def normalizeFields_def arrayFrom_def dummyObject_def assignMock_def c m)
  from p1 p2 p3 p4 p5 p6 show ?thesis by (intro conjI)
qed

text \<open>
  Claim C5, amended. For every \<open>targetSize\<close> that is an integer from 0 to
  \<open>2^32 - 1\<close> and every list of field names without \<^verbatim>\<open>__proto__\<close>, \<open>transform\<close> on
  the empty list returns exactly \<open>targetSize\<close> records; record \<open>i\<close> (from 0) has the
  field \<open>id\<close> and the designated fields and no other, each designated field holds the
  placeholder of \<open>mockLabel\<close>, and \<open>id\<close> holds \<open>i\<close> unless \<open>id\<close> is itself a designated
  field. With an empty or omitted field list every record has the field \<open>id\<close> only,
  equal to its index. A single field name, for every \<open>targetSize\<close>, does what the list
  of that one name does, and the empty name what the empty list does.
\<close>

theorem transform_empty_fills:
  assumes "n \<le> maxArrayLength" and "''__proto__'' \<notin> set fields"
  shows "(\<exists>rs. transform argumentLimit [] (Fields fields) (real n) mockLabel = Some (Inr rs) \<and>
        length rs = n \<and>
        (\<forall>i<length rs. \<exists>m. rs ! i = Object None m \<and>
            dom m = insert ''id'' (set fields) \<and>
            (\<forall>f\<in>set fields. m f = Some (createMock mockLabel)) \<and>
            (''id'' \<notin> set fields \<longrightarrow> m ''id'' = Some (Num (Finite (real i)))))) \<and>
   transform argumentLimit [] (Fields []) (real n) mockLabel =
     Some (Inr (map (\<lambda>i. Object None (Map.empty(''id'' \<mapsto> Num (Finite (real i))))) [0..<n])) \<and>
   transform argumentLimit [] Omitted (real n) mockLabel =
     Some (Inr (map (\<lambda>i. Object None (Map.empty(''id'' \<mapsto> Num (Finite (real i))))) [0..<n])) \<and>
   transform argumentLimit [] (Field f) targetSize mockLabel =
     transform argumentLimit [] (Fields (if f = [] then [] else [f])) targetSize mockLabel"
proof (intro conjI)
  let ?g = "\<lambda>i. Object None (\<lambda>name. if name \<in> set fields then Some (createMock mockLabel)
                     else if name = ''id'' then Some (Num (Finite (real i))) else None)"
  let ?rs = "map ?g [0..<n]"
  have "transform argumentLimit [] (Fields fields) (real n) mockLabel = Some (Inr ?rs)"
    using assms by (rule transform_empty_records)
  moreover have "length ?rs = n"
    by simp
  moreover have "\<exists>m. ?rs ! i = Object None m \<and>
                dom m = insert ''id'' (set fields) \<and>
                (\<forall>f\<in>set fields. m f = Some (createMock mockLabel)) \<and>
                (''id'' \<notin> set fields \<longrightarrow> m ''id'' = Some (Num (Finite (real i))))"
    if "i < length ?rs" for i
  proof -
    let ?m = "\<lambda>name. if name \<in> set fields then Some (createMock mockLabel)
                     else if name = ''id'' then Some (Num (Finite (real i))) else None"
    have "?rs ! i = Object None ?m"
      using that by (simp cong: if_cong)
    moreover have "dom ?m = insert ''id'' (set fields)"
      by (auto simp: dom_def)
    ultimately show ?thesis
      by (intro exI [of _ ?m]) simp
  qed
  ultimately show "\<exists>rs. transform argumentLimit [] (Fields fields) (real n) mockLabel = Some (Inr rs) \<and>
        length rs = n \<and>
        (\<forall>i<length rs. \<exists>m. rs ! i = Object None m \<and>
            dom m = insert ''id'' (set fields) \<and>
            (\<forall>f\<in>set fields. m f = Some (createMock mockLabel)) \<and>
            (''id'' \<notin> set fields \<longrightarrow> m ''id'' = Some (Num (Finite (real i)))))"
    by blast
next
  have "dummyObject [] mockLabel =
        (\<lambda>i. Inr (Object None (Map.empty(''id'' \<mapsto> Num (Finite (real i))))))"
    by (simp add: dummyObject_def fun_eq_iff)
  then have "arrayFrom (real n) (dummyObject [] mockLabel) =
        Inr (map (\<lambda>i. Object None (Map.empty(''id'' \<mapsto> Num (Finite (real i))))) [0..<n])"
    using assms(1) by (simp add: arrayFrom_def toLength_of_nat collect_map_Inr)
  then show "transform argumentLimit [] (Fields []) (real n) mockLabel =
     Some (Inr (map (\<lambda>i. Object None (Map.empty(''id'' \<mapsto> Num (Finite (real i))))) [0..<n]))"
    by (simp add: transform_def normalizeFields_def)
  then show "transform argumentLimit [] Omitted (real n) mockLabel =
     Some (Inr (map (\<lambda>i. Object None (Map.empty(''id'' \<mapsto> Num (Finite (real i))))) [0..<n]))"
    by (simp add: transform_def normalizeFields_def)
next
  show "transform argumentLimit [] (Field f) targetSize mockLabel =
     transform argumentLimit [] (Fields (if f = [] then [] else [f])) targetSize mockLabel"
    by (simp add: transform_def normalizeFields_def)
qed

theorem transform_empty_fills_witness:
  "transform 65536 [] (Fields []) 100 ''mock'' =
     Some (Inr (map (\<lambda>i. Object None (Map.empty(''id'' \<mapsto> Num (Finite (real i))))) [0..<100])) \<and>
   (\<exists>rs. transform 65536 [] (Fields [''profile'', ''address'']) 5 ''mock'' = Some (Inr rs) \<and>
      length rs = 5 \<and>
      (\<exists>m. rs ! 2 = Object None m \<and> dom m = {''id'', ''profile'', ''address''} \<and>
           m ''profile'' = Some (createMock ''mock'') \<and>
           m ''address'' = Some (createMock ''mock'') \<and>
           m ''id'' = Some (Num (Finite 2)))) \<and>
   transform 65536 [] (Field ''profile'') 5 ''mock'' =
     transform 65536 [] (Fields [''profile'']) 5 ''mock''"
proof -
  have n: "real 100 = 100" by simp
  have k: "real 5 = 5" by simp
  have a: "(100 :: nat) \<le> maxArrayLength" by (simp add: maxArrayLength_def)
  have b: "(5 :: nat) \<le> maxArrayLength" by (simp add: maxArrayLength_def)
  have e: "''__proto__'' \<notin> set ([] :: string list)" by simp
  have p: "''__proto__'' \<notin> set [''profile'', ''address'']" by simp
  have q: "''__proto__'' \<notin> set [''profile'']" by simp
  note first = transform_empty_fills [OF a e, of 65536 "''mock''", THEN conjunct2, THEN conjunct1,
      unfolded n]
  have third: "transform 65536 [] (Field ''profile'') 5 ''mock'' =
     transform 65536 [] (Fields [''profile'']) 5 ''mock''"
    using transform_empty_fills [OF b q, of 65536 "''mock''" "''profile''" 5,
      THEN conjunct2, THEN conjunct2, THEN conjunct2]
    by simp
  from transform_empty_fills [OF b p, of 65536 "''mock''", THEN conjunct1, unfolded k]
  obtain rs where rs: "transform 65536 [] (Fields [''profile'', ''address'']) 5 ''mock'' = Some (Inr rs)"
    and len5: "length rs = 5"
    and each: "\<forall>i<length rs. \<exists>m. rs ! i = Object None m \<and>
                dom m = insert ''id'' (set [''profile'', ''address'']) \<and>
                (\<forall>f\<in>set [''profile'', ''address'']. m f = Some (createMock ''mock'')) \<and>
                (''id'' \<notin> set [''profile'', ''address''] \<longrightarrow> m ''id'' = Some (Num (Finite (real i))))"
    by (elim exE conjE)
  from len5 have two: "2 < length rs" by simp
  have "\<exists>m. rs ! 2 = Object None m \<and>
                dom m = insert ''id'' (set [''profile'', ''address'']) \<and>
                (\<forall>f\<in>set [''profile'', ''address'']. m f = Some (createMock ''mock'')) \<and>
                (''id'' \<notin> set [''profile'', ''address''] \<longrightarrow> m ''id'' = Some (Num (Finite (real (2::nat)))))"
    by (rule mp [OF spec [where x = "2::nat", OF each] two])
  then obtain m where m1: "rs ! 2 = Object None m"
    and m2: "dom m = insert ''id'' (set [''profile'', ''address''])"
    and m3: "\<forall>f\<in>set [''profile'', ''address'']. m f = Some (createMock ''mock'')"
    and m4: "''id'' \<notin> set [''profile'', ''address''] \<longrightarrow> m ''id'' = Some (Num (Finite (real (2::nat))))"
    by (elim exE conjE)
  from m2 have d: "dom m = {''id'', ''profile'', ''address''}" by simp
  from m3 have pp: "m ''profile'' = Some (createMock ''mock'')"
    and qq: "m ''address'' = Some (createMock ''mock'')" by simp_all
  from m4 have i: "m ''id'' = Some (Num (Finite 2))" by simp
  have "\<exists>m. rs ! 2 = Object None m \<and> dom m = {''id'', ''profile'', ''address''} \<and>
           m ''profile'' = Some (createMock ''mock'') \<and>
           m ''address'' = Some (createMock ''mock'') \<and>
           m ''id'' = Some (Num (Finite 2))"
    using m1 d pp qq i by (intro exI [of _ m] conjI)
  with rs len5 have second: "\<exists>rs. transform 65536 [] (Fields [''profile'', ''address'']) 5 ''mock'' = Some (Inr rs) \<and>
      length rs = 5 \<and>
      (\<exists>m. rs ! 2 = Object None m \<and> dom m = {''id'', ''profile'', ''address''} \<and>
           m ''profile'' = Some (createMock ''mock'') \<and>
           m ''address'' = Some (createMock ''mock'') \<and>
           m ''id'' = Some (Num (Finite 2)))"
    by (intro exI [of _ rs] conjI)
  from first second third show ?thesis by (intro conjI)
qed

subsection \<open>Termination, sufficient inputs and idempotence\<close>

lemma transform_returns:
  "\<exists>res. transform argumentLimit value fieldsOrField targetSize mockLabel = Some res \<and>
       (\<forall>r. res = Inr r \<longrightarrow>
          (value \<noteq> [] \<longrightarrow> targetSize \<le> real (length r)) \<and>
          (value = [] \<longrightarrow> length r = toLength targetSize \<and> toLength targetSize \<le> maxArrayLength))"
proof (cases "value = []")
  case True
  then show ?thesis
    by (auto simp: transform_def dest: arrayFrom_length)
next
  case False
  show ?thesis
  proof (cases "real (length value) < targetSize")
    case True
    from duplicateLoop_terminates [OF False, of argumentLimit targetSize "value"]
    obtain res where "duplicateLoop argumentLimit value targetSize value = Some res"
      and "\<forall>r. res = Inr r \<longrightarrow> targetSize \<le> real (length r)"
      by blast
    with False True show ?thesis by (simp add: transform_def)
  next
    case notless: False
    with False show ?thesis by (simp add: transform_def)
  qed
qed

lemma transform_empty_again:
  "toLength targetSize = 0 \<Longrightarrow>
   transform argumentLimit [] fieldsOrField targetSize mockLabel = Some (Inr [])"
  by (simp add: transform_def arrayFrom_def)

lemma transform_sufficient:
  "targetSize \<le> real (length value) \<Longrightarrow>
   transform argumentLimit value fieldsOrField targetSize mockLabel = Some (Inr value)"
proof (cases "value = []")
  case False
  assume "targetSize \<le> real (length value)"
  with False show ?thesis by (simp add: transform_def)
next
  case True
  assume "targetSize \<le> real (length value)"
  with True have "targetSize \<le> 0" by simp
  then have "\<lfloor>targetSize\<rfloor> \<le> 0"
    by (simp add: floor_le_iff)
  then have "toLength targetSize = 0"
    by (simp add: toLength_def)
  with True show ?thesis by (simp add: transform_empty_again)
qed

text \<open>
  Claim C9. For every input \<open>value\<close> and every finite \<open>targetSize\<close>, \<open>transform\<close>
  runs to completion: the loop is entered with a non-empty \<open>value\<close> only, and then
  every iteration makes the accumulator longer by \<open>value.length\<close>, at least 1, until
  it has \<open>targetSize\<close> elements, unless a call throws first. (In the model a loop
  that runs forever is the result \<open>None\<close>; a call that throws has completed.)
\<close>

theorem transform_terminates:
  "\<exists>r. transform argumentLimit value fieldsOrField targetSize mockLabel = Some r"
proof -
  obtain r where "transform argumentLimit value fieldsOrField targetSize mockLabel = Some r"
    using transform_returns by blast
  then show ?thesis by blast
qed

text \<open>
  Claim C7, as stated, concludes that \<open>transform\<close> is idempotent for every input. On
  the empty input with the target size \<open>5/2\<close> the first application makes two
  records; two is less than \<open>5/2\<close>, so the second application duplicates them.
\<close>

theorem transform_idempotent_counterexample:
  "transform 65536 [] Omitted (5 / 2) ''mock'' =
     Some (Inr [Object None (Map.empty(''id'' \<mapsto> Num (Finite 0))),
                Object None (Map.empty(''id'' \<mapsto> Num (Finite 1)))]) \<and>
   transform 65536 [Object None (Map.empty(''id'' \<mapsto> Num (Finite 0))),
                    Object None (Map.empty(''id'' \<mapsto> Num (Finite 1)))] Omitted (5 / 2) ''mock'' =
     Some (Inr [Object None (Map.empty(''id'' \<mapsto> Num (Finite 0))),
                Object None (Map.empty(''id'' \<mapsto> Num (Finite 1))),
                Object None (Map.empty(''id'' \<mapsto> Num (Finite 0))),
                Object None (Map.empty(''id'' \<mapsto> Num (Finite 1)))])"
proof -
  let ?r = "[Object None (Map.empty(''id'' \<mapsto> Num (Finite 0))),
             Object None (Map.empty(''id'' \<mapsto> Num (Finite 1)))]"
  have b: "toLength (5 / 2) = 2" by (simp add: toLength_def)
  have u: "[0..<2] = [0, 1]" by (simp add: upt_rec)
  have m: "maxArrayLength = 4294967295" by (simp add: maxArrayLength_def)
  have first: "transform 65536 [] Omitted (5 / 2) ''mock'' = Some (Inr ?r)"
    by (simp add: transform_def normalizeFields_def arrayFrom_def dummyObject_def b u m)
  have "duplicateLoop 65536 ?r (5 / 2) ?r = duplicateLoop 65536 ?r (5 / 2) (?r @ ?r)"
    by (subst duplicateLoop.simps) (simp add: m)
  also have "\<dots> = Some (Inr (?r @ ?r))"
    by (subst duplicateLoop.simps) simp
  finally have "transform 65536 ?r Omitted (5 / 2) ''mock'' = Some (Inr (?r @ ?r))"
    by (simp add: transform_def)
  with first show ?thesis by simp
qed

text \<open>
  Claim C7, amended. For every \<open>value\<close> with \<open>value.length >= targetSize\<close>,
  \<open>transform\<close> returns \<open>value\<close> unchanged; hence, whenever \<open>value\<close> is not empty, or
  \<open>targetSize\<close> is an integer, or \<open>targetSize\<close> is below 1, \<open>transform\<close> is
  idempotent: the first application completes, and when it returns some \<open>r\<close> (it does
  unless a call throws), the application to \<open>r\<close> with the same field, target size and
  label returns \<open>r\<close> again.
\<close>

theorem transform_unchanged_idempotent:
  "(targetSize \<le> real (length value) \<longrightarrow>
      transform argumentLimit value fieldsOrField targetSize mockLabel = Some (Inr value)) \<and>
   (value \<noteq> [] \<or> targetSize \<in> \<int> \<or> targetSize < 1 \<longrightarrow>
      (\<exists>res. transform argumentLimit value fieldsOrField targetSize mockLabel = Some res \<and>
           (\<forall>r. res = Inr r \<longrightarrow>
              transform argumentLimit r fieldsOrField targetSize mockLabel = Some (Inr r))))"
proof (intro conjI impI)
  assume "targetSize \<le> real (length value)"
  then show "transform argumentLimit value fieldsOrField targetSize mockLabel = Some (Inr value)"
    by (rule transform_sufficient)
next
  assume cond: "value \<noteq> [] \<or> targetSize \<in> \<int> \<or> targetSize < 1"
  obtain res where res: "transform argumentLimit value fieldsOrField targetSize mockLabel = Some res"
    and full: "\<forall>r. res = Inr r \<longrightarrow>
          (value \<noteq> [] \<longrightarrow> targetSize \<le> real (length r)) \<and>
          (value = [] \<longrightarrow> length r = toLength targetSize \<and> toLength targetSize \<le> maxArrayLength)"
    using transform_returns by blast
  have "transform argumentLimit r fieldsOrField targetSize mockLabel = Some (Inr r)"
    if r: "res = Inr r" for r
  proof (cases "value = []")
    case False
    with full r show ?thesis by (simp add: transform_sufficient)
  next
    case True
    with full r have len: "length r = toLength targetSize"
      and cap: "toLength targetSize \<le> maxArrayLength" by simp_all
    show ?thesis
    proof (cases "targetSize < 1")
      case True
      then have "\<lfloor>targetSize\<rfloor> < 1"
        by (simp add: floor_less_iff)
      then have "toLength targetSize = 0"
        by (simp add: toLength_def)
      with len show ?thesis by (simp add: transform_empty_again)
    next
      case False
      with cond \<open>value = []\<close> have "targetSize \<in> \<int>" by simp
      then obtain z where z: "targetSize = real_of_int z"
        by (auto elim: Ints_cases)
      with False have zpos: "0 \<le> z" by simp
      have "nat z \<le> 2 ^ 53 - 1"
      proof (rule ccontr)
        assume "\<not> nat z \<le> 2 ^ 53 - 1"
        then have "toLength targetSize = 2 ^ 53 - 1"
          using z by (simp add: toLength_def)
        with cap show False by (simp add: maxArrayLength_def)
      qed
      with z zpos len have "real (length r) = targetSize"
        by (simp add: toLength_def)
      then show ?thesis by (simp add: transform_sufficient)
    qed
  qed
  with res show "\<exists>res. transform argumentLimit value fieldsOrField targetSize mockLabel = Some res \<and>
           (\<forall>r. res = Inr r \<longrightarrow>
              transform argumentLimit r fieldsOrField targetSize mockLabel = Some (Inr r))"
    by blast
qed

theorem transform_unchanged_idempotent_witness:
  "transform 65536 [Num (Finite 1), Num (Finite 2), Num (Finite 3), Num (Finite 4), Num (Finite 5)]
     Omitted 3 ''mock'' =
     Some (Inr [Num (Finite 1), Num (Finite 2), Num (Finite 3), Num (Finite 4), Num (Finite 5)]) \<and>
   (\<exists>r. transform 65536 [Num (Finite 1), Num (Finite 2), Num (Finite 3)] Omitted 10 ''mock'' =
          Some (Inr r) \<and>
        transform 65536 r Omitted 10 ''mock'' = Some (Inr r)) \<and>
   (\<exists>r. transform 65536 [] (Fields [''profile'']) 100 ''mock'' = Some (Inr r) \<and>
        transform 65536 r (Fields [''profile'']) 100 ''mock'' = Some (Inr r))"
proof -
  let ?v = "[Num (Finite 1), Num (Finite 2), Num (Finite 3), Num (Finite 4), Num (Finite 5)]"
  let ?w = "[Num (Finite 1), Num (Finite 2), Num (Finite 3)]"
  have h: "3 \<le> real (length ?v)" by simp
  have c1: "?w \<noteq> [] \<or> (10::real) \<in> \<int> \<or> (10::real) < 1" by simp
  have c2: "([] :: jsvalue list) \<noteq> [] \<or> (100::real) \<in> \<int> \<or> (100::real) < 1" by simp
  note a = transform_unchanged_idempotent [of 3 ?v 65536 Omitted "''mock''",
      THEN conjunct1, THEN mp, OF h]
  from transform_unchanged_idempotent [of 10 ?w 65536 Omitted "''mock''",
      THEN conjunct2, THEN mp, OF c1]
  obtain res1 where r1: "transform 65536 ?w Omitted 10 ''mock'' = Some res1"
    and i1: "\<forall>r. res1 = Inr r \<longrightarrow> transform 65536 r Omitted 10 ''mock'' = Some (Inr r)"
    by (elim exE conjE)
  from r1 transform_duplicates_example obtain r where "res1 = Inr r"
    by auto
  with r1 i1 have b: "\<exists>r. transform 65536 ?w Omitted 10 ''mock'' = Some (Inr r) \<and>
        transform 65536 r Omitted 10 ''mock'' = Some (Inr r)"
    by blast
  from transform_unchanged_idempotent [of 100 "[]" 65536 "Fields [''profile'']" "''mock''",
      THEN conjunct2, THEN mp, OF c2]
  obtain res2 where r2: "transform 65536 [] (Fields [''profile'']) 100 ''mock'' = Some res2"
    and i2: "\<forall>r. res2 = Inr r \<longrightarrow>
        transform 65536 r (Fields [''profile'']) 100 ''mock'' = Some (Inr r)"
    by (elim exE conjE)
  have n: "real 100 = 100" by simp
  have "(100 :: nat) \<le> maxArrayLength" by (simp add: maxArrayLength_def)
  moreover have "''__proto__'' \<notin> set [''profile'']" by simp
  ultimately obtain rs where "transform 65536 [] (Fields [''profile'']) 100 ''mock'' = Some (Inr rs)"
    using transform_empty_records [of 100 "[''profile'']" 65536 "''mock''", unfolded n]
    by blast
  with r2 have "res2 = Inr rs" by simp
  with r2 i2 have c: "\<exists>r. transform 65536 [] (Fields [''profile'']) 100 ''mock'' = Some (Inr r) \<and>
        transform 65536 r (Fields [''profile'']) 100 ''mock'' = Some (Inr r)"
    by blast
  from a b c show ?thesis by (intro conjI)
qed

section \<open>Properties of the placeholder\<close>

lemma performAll_stays:
  "(\<forall>op\<in>set ops. op \<noteq> GetOp SymbolToPrimitive) \<Longrightarrow>
   performAll builtin (MockProxy displayToken) ops = Inr (MockProxy displayToken)"
proof (induction ops)
  case Nil
  show ?case by simp
next
  case (Cons op ops)
  then have here: "perform builtin (MockProxy displayToken) op = Inr (MockProxy displayToken)"
    by (cases op) (auto simp: handler_get_def handler_apply_def)
  from Cons have "performAll builtin (MockProxy displayToken) ops = Inr (MockProxy displayToken)"
    by simp
  with here show ?case by simp
qed

text \<open>
  Claim C2, as stated, has every property read return the placeholder. The \<^verbatim>\<open>get\<close>
  trap answers the key \<^verbatim>\<open>Symbol.toPrimitive\<close> with the function \<^verbatim>\<open>() => displayToken\<close>
  instead (this is how conversion to a primitive yields the label), and a chain that
  goes on from that function leaves the placeholder: \<^verbatim>\<open>proxy[Symbol.toPrimitive].foo\<close>
  is \<^verbatim>\<open>undefined\<close>, and a read on it throws.
\<close>

theorem createMock_counterexample:
  "getValue (\<lambda>v prop. Undefined) (createMock ''mock'') SymbolToPrimitive =
     Inr (ConstFunction (Str ''mock'')) \<and>
   ConstFunction (Str ''mock'') \<noteq> createMock ''mock'' \<and>
   performAll (\<lambda>v prop. Undefined) (createMock ''mock'')
     [GetOp SymbolToPrimitive, GetOp (StringKey ''foo''), GetOp (StringKey ''bar'')] =
     Inl TypeError"
  by (simp add: createMock_def handler_get_def)

text \<open>
  Claim C2, amended. On the value of \<open>createMock mockLabel\<close>, a property or index read
  with any key other than \<^verbatim>\<open>Symbol.toPrimitive\<close> returns the same placeholder, and the
  key \<^verbatim>\<open>Symbol.toPrimitive\<close> returns a function that yields \<open>mockLabel\<close>; a call returns
  the same placeholder; the enumeration of its own keys is empty; conversion to a
  primitive yields the string \<open>mockLabel\<close>. Hence every finite sequence of calls and of
  reads with keys other than \<^verbatim>\<open>Symbol.toPrimitive\<close>, at any depth, raises no error and
  ends at the same placeholder.
\<close>

theorem createMock_absorbing:
  "(\<forall>prop. prop \<noteq> SymbolToPrimitive \<longrightarrow>
      getValue builtin (createMock mockLabel) prop = Inr (createMock mockLabel)) \<and>
   getValue builtin (createMock mockLabel) SymbolToPrimitive = Inr (ConstFunction (Str mockLabel)) \<and>
   callValue (createMock mockLabel) args = Inr (createMock mockLabel) \<and>
   ownKeysOfMock mockLabel = [] \<and>
   toPrimitiveOfMock mockLabel = Inr (Str mockLabel) \<and>
   ((\<forall>op\<in>set ops. op \<noteq> GetOp SymbolToPrimitive) \<longrightarrow>
      performAll builtin (createMock mockLabel) ops = Inr (createMock mockLabel))"
  by (simp add: createMock_def handler_get_def handler_apply_def handler_ownKeys_def
      ownKeysOfMock_def toPrimitiveOfMock_def performAll_stays)

theorem createMock_absorbing_witness:
  "getValue (\<lambda>v prop. Undefined) (createMock ''mock'') (StringKey ''name'') = Inr (createMock ''mock'') \<and>
   performAll (\<lambda>v prop. Undefined) (createMock ''mock'')
     [GetOp (StringKey ''a''), GetOp (StringKey ''b''), CallOp [], GetOp (StringKey ''0''),
      GetOp (OtherSymbol ''iterator'')] = Inr (createMock ''mock'')"
proof -
  let ?ops = "[GetOp (StringKey ''a''), GetOp (StringKey ''b''), CallOp [], GetOp (StringKey ''0''),
      GetOp (OtherSymbol ''iterator'')]"
  have h1: "StringKey ''name'' \<noteq> SymbolToPrimitive" by simp
  have h2: "\<forall>op\<in>set ?ops. op \<noteq> GetOp SymbolToPrimitive" by simp
  note all = createMock_absorbing [of "\<lambda>v prop. Undefined" "''mock''" "[]" ?ops]
  from all have "getValue (\<lambda>v prop. Undefined) (createMock ''mock'') (StringKey ''name'') =
      Inr (createMock ''mock'')"
    using h1 by blast
  moreover from all have "performAll (\<lambda>v prop. Undefined) (createMock ''mock'') ?ops =
      Inr (createMock ''mock'')"
    using h2 by blast
  ultimately show ?thesis by blast
qed

section \<open>Properties of skipUntilNonNull\<close>

text \<open>
  Once the flag is set, a subscription passes everything; and the first subscription
  to a new operator drops exactly the longest prefix of \<^verbatim>\<open>null\<close> and
  \<^verbatim>\<open>undefined\<close> values.
\<close>

lemma subscribeFiltered_emitted:
  "subscribeFiltered True xs = (xs, True)"
  by (induction xs) (simp_all add: filterPredicate_def)

lemma subscribeFiltered_fresh:
  "fst (subscribeFiltered False xs) = dropWhile (\<lambda>v. \<not> notNullish v) xs"
  by (induction xs) (simp_all add: filterPredicate_def subscribeFiltered_emitted split: prod.splits)

lemma skipUntilNonNull_first_subscription:
  "skipUntilNonNull [xs] = [dropWhile (\<lambda>v. \<not> notNullish v) xs]"
  using subscribeFiltered_fresh [of xs]
  by (cases "subscribeFiltered False xs") (simp add: skipUntilNonNull_def)

text \<open>
  Claim C10 says that, for every input sequence, the operator drops exactly the longest
  prefix of \<^verbatim>\<open>null\<close> and \<^verbatim>\<open>undefined\<close> values and passes the rest. The flag
  \<^verbatim>\<open>hasEmitted\<close> belongs to the operator and not to the subscription: here the
  observable \<^verbatim>\<open>of(null, 1, null).pipe(skipUntilNonNull())\<close> is subscribed to twice. The
  first subscriber receives \<open>1, null\<close>; the second finds the flag set and receives
  the \<^verbatim>\<open>null\<close> at the head as well.
\<close>

theorem skipUntilNonNull_second_subscription:
  "skipUntilNonNull [[Null, Value (1::nat), Null], [Null, Value 1, Null]] =
     [[Value 1, Null], [Null, Value 1, Null]] \<and>
   dropWhile (\<lambda>v. \<not> notNullish v) [Null, Value (1::nat), Null] = [Value 1, Null]"
  by (simp add: skipUntilNonNull_def filterPredicate_def)

end
